theory Spec2Isabelle
  imports Main "HOL-Library.AList"
begin

section \<open>JavaScript values\<close>

text \<open>
  Strings are lists of code units below 256. An optional value (\<open>T | undefined\<close>) is an
  \<open>option\<close>, with \<open>None\<close> for \<open>undefined\<close>. A thrown exception or a rejected promise is
  the left summand of a result.
\<close>

datatype error = Error string | TypeError string

text \<open>\<open>String(err)\<close>, as a template literal renders an error object.\<close>

fun errorToString :: "error \<Rightarrow> string" where
  "errorToString (Error msg) = ''Error: '' @ msg"
| "errorToString (TypeError msg) = ''TypeError: '' @ msg"

text \<open>A template literal prints \<open>undefined\<close> for an absent value.\<close>

definition tmpl :: "string option \<Rightarrow> string" where
  "tmpl v = (case v of None \<Rightarrow> ''undefined'' | Some s \<Rightarrow> s)"

text \<open>Truthiness of an optional string: \<open>undefined\<close> and the empty string are falsy.\<close>

definition truthy :: "string option \<Rightarrow> bool" where
  "truthy v = (case v of None \<Rightarrow> False | Some s \<Rightarrow> s \<noteq> [])"

text \<open>\<open>a || b\<close> on optional strings: the left operand if it is truthy, else the right one.\<close>

definition orStr :: "string option \<Rightarrow> string option \<Rightarrow> string option" where
  "orStr a b = (if truthy a then a else b)"

text \<open>\<open>a || b\<close> on optional arrays: every array, also the empty one, is truthy.\<close>

definition orArr :: "'a list option \<Rightarrow> 'a list option \<Rightarrow> 'a list option" where
  "orArr a b = (case a of None \<Rightarrow> b | Some xs \<Rightarrow> Some xs)"

text \<open>\<open>String.prototype.split\<close> with a one-character separator.\<close>

fun split :: "char \<Rightarrow> string \<Rightarrow> string list" where
  "split d [] = [[]]"
| "split d (c # cs) =
     (if c = d then [] # split d cs
      else (case split d cs of [] \<Rightarrow> [[c]] | w # ws \<Rightarrow> (c # w) # ws))"

text \<open>
  \<open>String.prototype.trim\<close>: the white space and line terminators of ECMAScript that
  are code units below 256 (TAB, LF, VT, FF, CR, SP, NBSP).
\<close>

definition isWhiteSpace :: "char \<Rightarrow> bool" where
  "isWhiteSpace c = (c \<in> set [CHR 0x09, CHR 0x0A, CHR 0x0B, CHR 0x0C, CHR 0x0D, CHR 0x20, CHR 0xA0])"

definition trim :: "string \<Rightarrow> string" where
  "trim s = rev (dropWhile isWhiteSpace (rev (dropWhile isWhiteSpace s)))"

text \<open>
  An object used as a string-keyed dictionary is an association list in insertion order.
  An object literal assigns its properties from left to right; assigning an existing key
  replaces the value in place.
\<close>

type_synonym 'v obj = "(string \<times> 'v) list"

definition objectLiteral :: "(string \<times> 'v) list \<Rightarrow> 'v obj" where
  "objectLiteral kvs = fold (\<lambda>kv ob. AList.update (fst kv) (snd kv) ob) kvs []"

section \<open>Data model (helpers/types.ts)\<close>

record object_reference =
  ref_kind :: "string option"
  ref_namespace :: "string option"
  ref_name :: "string option"

record cluster_spec =
  paused :: bool
  controlPlaneRef :: "object_reference option"
  infrastructureRef :: "object_reference option"

record cluster_status =
  phase :: "string option"
  infrastructureReady :: bool
  controlPlaneReady :: bool

text \<open>The part of \<open>V1ObjectMeta\<close> that the provider reads.\<close>

record object_meta =
  name :: "string option"
  namespace :: "string option"
  annotations :: "string obj option"

record cluster =
  metadata :: "object_meta option"
  spec :: cluster_spec
  status :: "cluster_status option"

record provider_defaults =
  clusterOwner :: "string option"
  system :: "string option"
  lifecycle :: "string option"
  tags :: "string list option"

record 's provider_config =
  id :: string
  hubClusterName :: string
  schedule :: "'s option"
  defaults :: "provider_defaults option"

section \<open>Annotation keys (constants.ts and the Backstage packages)\<close>

definition ANNOTATION_CAPI_PROVIDER :: string where
  "ANNOTATION_CAPI_PROVIDER = ''cluster.x-k8s.io/capi-provider''"

definition ANNOTATION_CAPI_CLUSTER_LIFECYCLE :: string where
  "ANNOTATION_CAPI_CLUSTER_LIFECYCLE = ''cluster.x-k8s.io/cluster-lifecycle''"

definition ANNOTATION_CAPI_CLUSTER_OWNER :: string where
  "ANNOTATION_CAPI_CLUSTER_OWNER = ''cluster.x-k8s.io/cluster-owner''"

definition ANNOTATION_CAPI_CLUSTER_DESCRIPTION :: string where
  "ANNOTATION_CAPI_CLUSTER_DESCRIPTION = ''cluster.x-k8s.io/cluster-description''"

definition ANNOTATION_CAPI_CLUSTER_SYSTEM :: string where
  "ANNOTATION_CAPI_CLUSTER_SYSTEM = ''cluster.x-k8s.io/cluster-system''"

definition ANNOTATION_CAPI_CLUSTER_TAGS :: string where
  "ANNOTATION_CAPI_CLUSTER_TAGS = ''cluster.x-k8s.io/cluster-tags''"

text \<open>
  The keys below are exported by \<open>@backstage/catalog-model\<close> and
  \<open>@backstage/plugin-kubernetes-common\<close>.
\<close>

definition ANNOTATION_LOCATION :: string where
  "ANNOTATION_LOCATION = ''backstage.io/managed-by-location''"

definition ANNOTATION_ORIGIN_LOCATION :: string where
  "ANNOTATION_ORIGIN_LOCATION = ''backstage.io/managed-by-origin-location''"

definition ANNOTATION_KUBERNETES_API_SERVER :: string where
  "ANNOTATION_KUBERNETES_API_SERVER = ''kubernetes.io/api-server''"

definition ANNOTATION_KUBERNETES_API_SERVER_CA :: string where
  "ANNOTATION_KUBERNETES_API_SERVER_CA = ''kubernetes.io/api-server-certificate-authority''"

definition ANNOTATION_KUBERNETES_AUTH_PROVIDER :: string where
  "ANNOTATION_KUBERNETES_AUTH_PROVIDER = ''kubernetes.io/auth-provider''"

section \<open>Reading a cluster (providers/CAPIClusterProvider.ts)\<close>

text \<open>\<open>cluster.metadata?.name\<close> and \<open>cluster.metadata?.namespace\<close>.\<close>

definition metadataName :: "cluster \<Rightarrow> string option" where
  "metadataName c = (case metadata c of None \<Rightarrow> None | Some m \<Rightarrow> name m)"

definition metadataNamespace :: "cluster \<Rightarrow> string option" where
  "metadataNamespace c = (case metadata c of None \<Rightarrow> None | Some m \<Rightarrow> namespace m)"

text \<open>\<open>cluster.metadata?.annotations?.[key]\<close>.\<close>

definition annotation :: "cluster \<Rightarrow> string \<Rightarrow> string option" where
  "annotation c key =
     (case metadata c of None \<Rightarrow> None
      | Some m \<Rightarrow> (case annotations m of None \<Rightarrow> None | Some a \<Rightarrow> map_of a key))"

text \<open>\<open>cluster.spec.infrastructureRef?.kind ?? ''\<close>.\<close>

definition capiClusterProvider :: "cluster \<Rightarrow> string" where
  "capiClusterProvider c =
     (case infrastructureRef (spec c) of None \<Rightarrow> []
      | Some r \<Rightarrow> (case ref_kind r of None \<Rightarrow> [] | Some k \<Rightarrow> k))"

definition clusterName :: "cluster \<Rightarrow> string" where
  "clusterName c = tmpl (metadataNamespace c) @ ''/'' @ tmpl (metadataName c)"

record cluster_annotations =
  a_lifecycle :: "string option"
  a_owner :: "string option"
  a_description :: "string option"
  a_system :: "string option"
  a_tags :: "string list option"

definition clusterAnnotations :: "cluster \<Rightarrow> cluster_annotations" where
  "clusterAnnotations c =
     \<lparr> a_lifecycle = annotation c ANNOTATION_CAPI_CLUSTER_LIFECYCLE,
       a_owner = annotation c ANNOTATION_CAPI_CLUSTER_OWNER,
       a_description = annotation c ANNOTATION_CAPI_CLUSTER_DESCRIPTION,
       a_system = annotation c ANNOTATION_CAPI_CLUSTER_SYSTEM,
       a_tags = (case annotation c ANNOTATION_CAPI_CLUSTER_TAGS of None \<Rightarrow> None
                 | Some s \<Rightarrow> Some (map trim (split CHR '','' s))) \<rparr>"

section \<open>Catalog entities and mutations\<close>

text \<open>
  The value of an entity annotation is optional: a property a literal sets to
  \<open>undefined\<close> is present in the object, with the value \<open>None\<close>.
\<close>

record entity_metadata =
  e_name :: "string option"
  e_title :: "string option"
  e_description :: "string option"
  e_annotations :: "string option obj"
  e_tags :: "string list option"

record entity_spec =
  e_owner :: string
  e_type :: string
  e_lifecycle :: "string option"
  e_system :: "string option"

record resource_entity =
  e_kind :: string
  e_apiVersion :: string
  e_metadata :: entity_metadata
  e_spec :: entity_spec

record deferred_entity =
  entity :: resource_entity
  locationKey :: string

record mutation =
  m_type :: string
  entities :: "deferred_entity list"

section \<open>External collaborators\<close>

text \<open>
  The Kubernetes client, the kubeconfig parser and the catalog connection belong to
  other packages, the helper \<open>kubeApiResponseHandler\<close> to \<open>helpers/utils\<close>: they are
  parameters. A \<open>KubeConfig\<close> is reduced to its list of clusters, a secret to its type
  and data, a response to its body.
\<close>

record kc_cluster =
  kc_name :: string
  server :: string
  caData :: "string option"

record kubeconfig =
  clusters :: "kc_cluster list"

record secret =
  s_type :: "string option"
  s_data :: "string obj option"

record cluster_list =
  items :: "cluster list"

record custom_objects_api =
  listClusterCustomObject :: "string \<Rightarrow> string \<Rightarrow> string \<Rightarrow> error + cluster_list"

record core_v1_api =
  readNamespacedSecret :: "string \<Rightarrow> string \<Rightarrow> error + secret"

record connection =
  applyMutation :: "mutation \<Rightarrow> error option"

text \<open>
  \<open>loadFromString\<close> mutates the \<open>KubeConfig\<close> it is called on and may throw: it returns
  the error, if any, and the object as the call leaves it.
\<close>

record library =
  kubeApiResponseHandler :: "error + cluster_list \<Rightarrow> error + cluster_list"
  bufferFromBase64 :: "string \<Rightarrow> string"
  loadFromString :: "string \<Rightarrow> kubeconfig \<Rightarrow> error option \<times> kubeconfig"

text \<open>\<open>new KubeConfig()\<close>: no cluster is known yet.\<close>

definition newKubeConfig :: kubeconfig where
  "newKubeConfig = \<lparr> clusters = [] \<rparr>"

section \<open>Observable effects\<close>

text \<open>
  The messages written to the logger, oldest first, and the mutations passed to
  \<open>applyMutation\<close>, oldest first. Lookups that the source runs concurrently are run
  here in list order; only the order of their log lines depends on that.
\<close>

datatype log_entry = LogInfo string | LogError string error

record world =
  logs :: "log_entry list"
  applied :: "mutation list"

definition logInfo :: "string \<Rightarrow> world \<Rightarrow> world" where
  "logInfo msg w = w\<lparr> logs := logs w @ [LogInfo msg] \<rparr>"

definition logError :: "string \<Rightarrow> error \<Rightarrow> world \<Rightarrow> world" where
  "logError msg e w = w\<lparr> logs := logs w @ [LogError msg e] \<rparr>"

section \<open>Kubeconfig secrets (helpers/secret.ts)\<close>

definition decodeBase64 :: "library \<Rightarrow> string \<Rightarrow> string" where
  "decodeBase64 lib str = bufferFromBase64 lib str"

text \<open>\<open>secret.data?.value ?? ''\<close>.\<close>

definition secretValue :: "secret \<Rightarrow> string" where
  "secretValue s =
     (case s_data s of None \<Rightarrow> []
      | Some d \<Rightarrow> (case map_of d ''value'' of None \<Rightarrow> [] | Some v \<Rightarrow> v))"

definition decodeKubeConfigFromSecret :: "library \<Rightarrow> secret \<Rightarrow> world \<Rightarrow> kubeconfig \<times> world" where
  "decodeKubeConfigFromSecret lib s w =
     (let decoded = decodeBase64 lib (secretValue s);
          kc = newKubeConfig
      in case loadFromString lib decoded kc of
           (None, kc') \<Rightarrow> (kc', w)
         | (Some err, kc') \<Rightarrow> (kc', logInfo (''caught error '' @ errorToString err) w))"

definition getClusterKubeConfig ::
  "library \<Rightarrow> core_v1_api \<Rightarrow> string \<Rightarrow> string \<Rightarrow> world \<Rightarrow> (error + kubeconfig) \<times> world" where
  "getClusterKubeConfig lib cl nm ns w =
     (case readNamespacedSecret cl nm ns of
        Inl e \<Rightarrow> (Inl e, w)
      | Inr body \<Rightarrow>
          (case decodeKubeConfigFromSecret lib body w of (kc, w') \<Rightarrow> (Inr kc, w')))"

section \<open>Listing clusters (helpers/kubernetes.ts)\<close>

definition getCAPIClusters :: "library \<Rightarrow> custom_objects_api \<Rightarrow> error + cluster_list" where
  "getCAPIClusters lib api =
     kubeApiResponseHandler lib
       (listClusterCustomObject api ''cluster.x-k8s.io'' ''v1beta1'' ''clusters'')"

section \<open>The provider (providers/CAPIClusterProvider.ts)\<close>

record 's provider =
  config :: "'s provider_config"
  customObjectsClient :: custom_objects_api
  client :: core_v1_api
  connection :: "connection option"

definition getProviderName :: "'s provider \<Rightarrow> string" where
  "getProviderName p = ''CAPIClusterProvider:'' @ id (config p)"

text \<open>\<open>this.config.defaults?.field\<close>.\<close>

definition configDefault :: "(provider_defaults \<Rightarrow> 'a option) \<Rightarrow> 's provider \<Rightarrow> 'a option" where
  "configDefault field p = (case defaults (config p) of None \<Rightarrow> None | Some d \<Rightarrow> field d)"

text \<open>\<open>a || 'literal'\<close>.\<close>

definition orLit :: "string option \<Rightarrow> string \<Rightarrow> string" where
  "orLit a lit = (case a of None \<Rightarrow> lit | Some s \<Rightarrow> if s \<noteq> [] then s else lit)"

text \<open>
  \<open>new Map(pairs)\<close> sets the pairs in order, a later pair replacing the value of an
  equal key; \<open>get\<close> is \<open>undefined\<close> for a missing key as for a key set to \<open>undefined\<close>.
\<close>

definition newMap :: "(string \<times> 'v) list \<Rightarrow> 'v obj" where
  "newMap pairs = objectLiteral pairs"

definition mapGet :: "'v option obj \<Rightarrow> string \<Rightarrow> 'v option" where
  "mapGet m k = (case map_of m k of None \<Rightarrow> None | Some v \<Rightarrow> v)"

text \<open>
  \<open>kc?.clusters[0].server\<close> and \<open>kc?.clusters[0].caData\<close>: the optional chain stops at
  an absent \<open>kc\<close> only; reading a property of the absent first element of an empty
  array throws a \<open>TypeError\<close>.
\<close>

definition firstServer :: "kubeconfig option \<Rightarrow> error + string option" where
  "firstServer kc =
     (case kc of None \<Rightarrow> Inr None
      | Some k \<Rightarrow> (case clusters k of
                    [] \<Rightarrow> Inl (TypeError ''Cannot read properties of undefined (reading server)'')
                  | c # _ \<Rightarrow> Inr (Some (server c))))"

definition firstCaData :: "kubeconfig option \<Rightarrow> error + string option" where
  "firstCaData kc =
     (case kc of None \<Rightarrow> Inr None
      | Some k \<Rightarrow> (case clusters k of
                    [] \<Rightarrow> Inl (TypeError ''Cannot read properties of undefined (reading caData)'')
                  | c # _ \<Rightarrow> Inr (caData c)))"

text \<open>The callback that fetches the kubeconfig of one cluster; a failed read is caught.\<close>

definition lookupKubeConfig ::
  "library \<Rightarrow> 's provider \<Rightarrow> cluster \<Rightarrow> world \<Rightarrow> (string \<times> kubeconfig option) \<times> world" where
  "lookupKubeConfig lib p c w =
     (let w1 = logInfo (''Getting KubeConfig Secret for '' @ clusterName c) w
      in case getClusterKubeConfig lib (client p)
                (tmpl (metadataName c) @ ''-kubeconfig'')
                (orLit (metadataNamespace c) ''default'') w1 of
           (Inl e, w2) \<Rightarrow> ((clusterName c, None), w2)
         | (Inr kubeConfig, w2) \<Rightarrow> ((clusterName c, Some kubeConfig), w2))"

fun lookupKubeConfigs ::
  "library \<Rightarrow> 's provider \<Rightarrow> cluster list \<Rightarrow> world \<Rightarrow> (string \<times> kubeconfig option) list \<times> world" where
  "lookupKubeConfigs lib p [] w = ([], w)"
| "lookupKubeConfigs lib p (c # cs) w =
     (case lookupKubeConfig lib p c w of
        (pair, w1) \<Rightarrow> (case lookupKubeConfigs lib p cs w1 of
                         (pairs, w2) \<Rightarrow> (pair # pairs, w2)))"

text \<open>The callback that maps one cluster to a catalog entity.\<close>

definition mapCluster :: "'s provider \<Rightarrow> kubeconfig option obj \<Rightarrow> cluster \<Rightarrow> error + resource_entity" where
  "mapCluster p kubeConfigs c =
     (let a = clusterAnnotations c;
          clusterKubeConfig = mapGet kubeConfigs (clusterName c)
      in case firstServer clusterKubeConfig of Inl e \<Rightarrow> Inl e | Inr srv \<Rightarrow>
         (case firstCaData clusterKubeConfig of Inl e \<Rightarrow> Inl e | Inr ca \<Rightarrow>
         (let resource =
            \<lparr> e_kind = ''Resource'',
              e_apiVersion = ''backstage.io/v1beta1'',
              e_metadata =
                \<lparr> e_name = metadataName c,
                  e_title = metadataName c,
                  e_description = a_description a,
                  e_annotations = objectLiteral
                    [(ANNOTATION_LOCATION, Some (getProviderName p)),
                     (ANNOTATION_ORIGIN_LOCATION, Some (getProviderName p)),
                     (ANNOTATION_CAPI_PROVIDER, Some (capiClusterProvider c)),
                     (ANNOTATION_KUBERNETES_API_SERVER, srv),
                     (ANNOTATION_KUBERNETES_API_SERVER_CA, ca),
                     (ANNOTATION_KUBERNETES_AUTH_PROVIDER, Some ''oidc'')],
                  e_tags = orArr (a_tags a) (configDefault tags p) \<rparr>,
              e_spec =
                \<lparr> e_owner = orLit (orStr (a_owner a) (configDefault clusterOwner p)) ''guest'',
                  e_type = ''kubernetes-cluster'',
                  e_lifecycle = orStr (a_lifecycle a) (configDefault lifecycle p),
                  e_system = orStr (a_system a) (configDefault system p) \<rparr> \<rparr>
          in case clusterKubeConfig of
               None \<Rightarrow> Inr resource
             | Some kc \<Rightarrow>
                 (case firstServer clusterKubeConfig of Inl e \<Rightarrow> Inl e | Inr srv2 \<Rightarrow>
                 (case firstCaData clusterKubeConfig of Inl e \<Rightarrow> Inl e | Inr ca2 \<Rightarrow>
                    Inr (resource\<lparr> e_metadata := (e_metadata resource)
                          \<lparr> e_annotations :=
                              AList.update ANNOTATION_KUBERNETES_AUTH_PROVIDER (Some ''oidc'')
                                (AList.update ANNOTATION_KUBERNETES_API_SERVER_CA ca2
                                  (AList.update ANNOTATION_KUBERNETES_API_SERVER srv2
                                    (e_annotations (e_metadata resource)))) \<rparr> \<rparr>))))))"

text \<open>\<open>Array.prototype.map\<close> with a callback that may throw: the first throw ends it.\<close>

fun mapThrowing :: "('a \<Rightarrow> error + 'b) \<Rightarrow> 'a list \<Rightarrow> error + 'b list" where
  "mapThrowing f [] = Inr []"
| "mapThrowing f (x # xs) =
     (case f x of Inl e \<Rightarrow> Inl e
      | Inr y \<Rightarrow> (case mapThrowing f xs of Inl e \<Rightarrow> Inl e | Inr ys \<Rightarrow> Inr (y # ys)))"

definition fullMutation :: "'s provider \<Rightarrow> resource_entity list \<Rightarrow> mutation" where
  "fullMutation p resources =
     \<lparr> m_type = ''full'',
       entities = map (\<lambda>e. \<lparr> entity = e, locationKey = getProviderName p \<rparr>) resources \<rparr>"

text \<open>\<open>await this.connection.applyMutation(m)\<close>: the call is recorded, then it may reject.\<close>

definition submit :: "connection \<Rightarrow> mutation \<Rightarrow> world \<Rightarrow> (error + unit) \<times> world" where
  "submit conn m w =
     (let w' = w\<lparr> applied := applied w @ [m] \<rparr>
      in case applyMutation conn m of None \<Rightarrow> (Inr (), w') | Some e \<Rightarrow> (Inl e, w'))"

definition refresh :: "library \<Rightarrow> 's provider \<Rightarrow> world \<Rightarrow> (error + unit) \<times> world" where
  "refresh lib p w =
     (case connection p of
        None \<Rightarrow> (Inl (Error ''Not initialized''), w)
      | Some conn \<Rightarrow>
          (let w1 = logInfo (''Providing CAPI Cluster resources from cluster ''
                               @ hubClusterName (config p)) w
           in case getCAPIClusters lib (customObjectsClient p) of
                Inl e \<Rightarrow> (Inl e, w1)
              | Inr cls \<Rightarrow>
                  (case lookupKubeConfigs lib p (items cls) w1 of
                     (clusterKubeConfigs, w2) \<Rightarrow>
                       (let kubeConfigs = newMap clusterKubeConfigs
                        in case mapThrowing (mapCluster p kubeConfigs) (items cls) of
                             Inl e \<Rightarrow> (Inl e, w2)
                           | Inr resources \<Rightarrow> submit conn (fullMutation p resources) w2))))"

text \<open>The unit of work handed to the task runner by \<open>createScheduleFn\<close>.\<close>

definition scheduledFn :: "library \<Rightarrow> 's provider \<Rightarrow> world \<Rightarrow> (error + unit) \<times> world" where
  "scheduledFn lib p w =
     (case refresh lib p w of
        (Inr u, w') \<Rightarrow> (Inr u, w')
      | (Inl err, w') \<Rightarrow> (Inr (), logError (getProviderName p @ '' refresh failed'') err w'))"

section \<open>The provider without kubeconfig secrets (the earlier CAPIClusterProvider.ts)\<close>

text \<open>
  The earlier variant of the provider has one client, the custom objects client, and
  maps every cluster without looking for a secret. Its definitions carry the suffix
  \<open>0\<close>; its client is the field \<open>customObjectsClient\<close> here.
\<close>

definition mapCluster0 :: "'s provider \<Rightarrow> cluster \<Rightarrow> resource_entity" where
  "mapCluster0 p c =
     (let a = clusterAnnotations c
      in \<lparr> e_kind = ''Resource'',
           e_apiVersion = ''backstage.io/v1beta1'',
           e_metadata =
             \<lparr> e_name = metadataName c,
               e_title = metadataName c,
               e_description = a_description a,
               e_annotations = objectLiteral
                 [(ANNOTATION_LOCATION, Some (getProviderName p)),
                  (ANNOTATION_ORIGIN_LOCATION, Some (getProviderName p)),
                  (ANNOTATION_CAPI_PROVIDER, Some (capiClusterProvider c))],
               e_tags = orArr (a_tags a) (configDefault tags p) \<rparr>,
           e_spec =
             \<lparr> e_owner = orLit (orStr (a_owner a) (configDefault clusterOwner p)) ''guest'',
               e_type = ''kubernetes-cluster'',
               e_lifecycle = orStr (a_lifecycle a) (configDefault lifecycle p),
               e_system = orStr (a_system a) (configDefault system p) \<rparr> \<rparr>)"

definition refresh0 :: "library \<Rightarrow> 's provider \<Rightarrow> world \<Rightarrow> (error + unit) \<times> world" where
  "refresh0 lib p w =
     (case connection p of
        None \<Rightarrow> (Inl (Error ''Not initialized''), w)
      | Some conn \<Rightarrow>
          (let w1 = logInfo (''Providing CAPI Cluster resources from cluster ''
                               @ hubClusterName (config p)) w
           in case getCAPIClusters lib (customObjectsClient p) of
                Inl e \<Rightarrow> (Inl e, w1)
              | Inr cls \<Rightarrow> submit conn (fullMutation p (map (mapCluster0 p) (items cls))) w1))"

definition scheduledFn0 :: "library \<Rightarrow> 's provider \<Rightarrow> world \<Rightarrow> (error + unit) \<times> world" where
  "scheduledFn0 lib p w =
     (case refresh0 lib p w of
        (Inr u, w') \<Rightarrow> (Inr u, w')
      | (Inl err, w') \<Rightarrow> (Inr (), logError (getProviderName p @ '' refresh failed'') err w'))"

section \<open>Provider configuration (helpers/config.ts)\<close>

text \<open>
  The configuration reader of \<open>@backstage/config\<close> and the schedule parser of
  \<open>@backstage/backend-tasks\<close> are parameters: \<open>'c\<close> is the type of a configuration
  node, \<open>'s\<close> the type of a parsed schedule. Every read may throw.
\<close>

record ('c, 's) config_api =
  getOptionalConfig :: "'c \<Rightarrow> string \<Rightarrow> error + 'c option"
  getConfig :: "'c \<Rightarrow> string \<Rightarrow> error + 'c"
  has :: "'c \<Rightarrow> string \<Rightarrow> error + bool"
  keys :: "'c \<Rightarrow> string list"
  getString :: "'c \<Rightarrow> string \<Rightarrow> error + string"
  getOptionalString :: "'c \<Rightarrow> string \<Rightarrow> error + string option"
  getOptionalStringArray :: "'c \<Rightarrow> string \<Rightarrow> error + string list option"
  readTaskScheduleDefinitionFromConfig :: "'c \<Rightarrow> error + 's"

definition DEFAULT_PROVIDER_ID :: string where
  "DEFAULT_PROVIDER_ID = ''default''"

definition parseDefaults :: "('c, 's) config_api \<Rightarrow> 'c option \<Rightarrow> error + provider_defaults option" where
  "parseDefaults api cfg =
     (case cfg of
        None \<Rightarrow> Inr None
      | Some c \<Rightarrow>
          (case getOptionalString api c ''clusterOwner'' of Inl e \<Rightarrow> Inl e | Inr ownr \<Rightarrow>
          (case getOptionalString api c ''system'' of Inl e \<Rightarrow> Inl e | Inr sys \<Rightarrow>
          (case getOptionalString api c ''lifecycle'' of Inl e \<Rightarrow> Inl e | Inr lc \<Rightarrow>
          (case getOptionalStringArray api c ''tags'' of Inl e \<Rightarrow> Inl e | Inr tgs \<Rightarrow>
             Inr (Some \<lparr> clusterOwner = ownr, system = sys, lifecycle = lc, tags = tgs \<rparr>))))))"

definition readSchedule :: "('c, 's) config_api \<Rightarrow> 'c \<Rightarrow> error + 's option" where
  "readSchedule api c =
     (case has api c ''schedule'' of
        Inl e \<Rightarrow> Inl e
      | Inr False \<Rightarrow> Inr None
      | Inr True \<Rightarrow>
          (case getConfig api c ''schedule'' of Inl e \<Rightarrow> Inl e | Inr sc \<Rightarrow>
          (case readTaskScheduleDefinitionFromConfig api sc of
             Inl e \<Rightarrow> Inl e | Inr sd \<Rightarrow> Inr (Some sd))))"

definition readProviderConfig :: "('c, 's) config_api \<Rightarrow> string \<Rightarrow> 'c \<Rightarrow> error + 's provider_config" where
  "readProviderConfig api ident c =
     (case getString api c ''hubClusterName'' of Inl e \<Rightarrow> Inl e | Inr hub \<Rightarrow>
     (case readSchedule api c of Inl e \<Rightarrow> Inl e | Inr sched \<Rightarrow>
     (case getOptionalConfig api c ''defaults'' of Inl e \<Rightarrow> Inl e | Inr dc \<Rightarrow>
     (case parseDefaults api dc of Inl e \<Rightarrow> Inl e | Inr dflts \<Rightarrow>
        Inr \<lparr> id = ident, hubClusterName = hub, schedule = sched, defaults = dflts \<rparr>))))"

text \<open>The callback that \<open>readProviderConfigs\<close> maps over the child keys.\<close>

definition readNamedProvider :: "('c, 's) config_api \<Rightarrow> 'c \<Rightarrow> string \<Rightarrow> error + 's provider_config" where
  "readNamedProvider api providersConfig nm =
     (case getConfig api providersConfig nm of
        Inl e \<Rightarrow> Inl e
      | Inr providerConfig \<Rightarrow> readProviderConfig api nm providerConfig)"

definition readProviderConfigs :: "('c, 's) config_api \<Rightarrow> 'c \<Rightarrow> error + 's provider_config list" where
  "readProviderConfigs api cfg =
     (case getOptionalConfig api cfg ''catalog.providers.capi'' of
        Inl e \<Rightarrow> Inl e
      | Inr None \<Rightarrow> Inr []
      | Inr (Some providersConfig) \<Rightarrow>
          (case has api providersConfig ''hubClusterName'' of
             Inl e \<Rightarrow> Inl e
           | Inr True \<Rightarrow>
               (case readProviderConfig api DEFAULT_PROVIDER_ID providersConfig of
                  Inl e \<Rightarrow> Inl e | Inr pc \<Rightarrow> Inr [pc])
           | Inr False \<Rightarrow>
               mapThrowing (readNamedProvider api providersConfig) (keys api providersConfig)))"

subsection \<open>A configuration reader over JSON trees\<close>

text \<open>
  An instance of the reader, for running the configuration code on concrete documents:
  a node is a JSON value, a key is a path of object keys separated by dots, a missing
  value is \<open>undefined\<close> and a value of the wrong type throws.
\<close>

datatype json = JString string | JNumber int | JBool bool | JArray "json list"
  | JObject "(string \<times> json) list"

fun readPath :: "json option \<Rightarrow> string list \<Rightarrow> error + json option" where
  "readPath v [] = Inr v"
| "readPath None (part # parts) = readPath None parts"
| "readPath (Some (JObject kvs)) (part # parts) = readPath (map_of kvs part) parts"
| "readPath (Some _) (part # parts) = Inl (TypeError ''Invalid type in config, wanted object'')"

definition readValue :: "json \<Rightarrow> string \<Rightarrow> error + json option" where
  "readValue c key = readPath (Some c) (split CHR ''.'' key)"

fun jsonStrings :: "json list \<Rightarrow> error + string list" where
  "jsonStrings [] = Inr []"
| "jsonStrings (JString s # js) =
     (case jsonStrings js of Inl e \<Rightarrow> Inl e | Inr ss \<Rightarrow> Inr (s # ss))"
| "jsonStrings (_ # js) = Inl (TypeError ''Invalid type in config, wanted string-array'')"

definition jsonOptionalConfig :: "json \<Rightarrow> string \<Rightarrow> error + json option" where
  "jsonOptionalConfig c key =
     (case readValue c key of
        Inl e \<Rightarrow> Inl e
      | Inr None \<Rightarrow> Inr None
      | Inr (Some (JObject kvs)) \<Rightarrow> Inr (Some (JObject kvs))
      | Inr (Some _) \<Rightarrow> Inl (TypeError ''Invalid type in config, wanted object''))"

definition jsonOptionalString :: "json \<Rightarrow> string \<Rightarrow> error + string option" where
  "jsonOptionalString c key =
     (case readValue c key of
        Inl e \<Rightarrow> Inl e
      | Inr None \<Rightarrow> Inr None
      | Inr (Some (JString s)) \<Rightarrow> Inr (Some s)
      | Inr (Some _) \<Rightarrow> Inl (TypeError ''Invalid type in config, wanted string''))"

definition jsonReader :: "(json, json) config_api" where
  "jsonReader =
     \<lparr> getOptionalConfig = jsonOptionalConfig,
       getConfig = (\<lambda>c key. case jsonOptionalConfig c key of
                      Inl e \<Rightarrow> Inl e
                    | Inr None \<Rightarrow> Inl (Error (''Missing required config value at '' @ key))
                    | Inr (Some v) \<Rightarrow> Inr v),
       has = (\<lambda>c key. case readValue c key of
                Inl e \<Rightarrow> Inl e | Inr None \<Rightarrow> Inr False | Inr (Some _) \<Rightarrow> Inr True),
       keys = (\<lambda>c. case c of JObject kvs \<Rightarrow> map fst kvs | _ \<Rightarrow> []),
       getString = (\<lambda>c key. case jsonOptionalString c key of
                      Inl e \<Rightarrow> Inl e
                    | Inr None \<Rightarrow> Inl (Error (''Missing required config value at '' @ key))
                    | Inr (Some s) \<Rightarrow> Inr s),
       getOptionalString = jsonOptionalString,
       getOptionalStringArray = (\<lambda>c key. case readValue c key of
                      Inl e \<Rightarrow> Inl e
                    | Inr None \<Rightarrow> Inr None
                    | Inr (Some (JArray js)) \<Rightarrow>
                        (case jsonStrings js of Inl e \<Rightarrow> Inl e | Inr ss \<Rightarrow> Inr (Some ss))
                    | Inr (Some _) \<Rightarrow> Inl (TypeError ''Invalid type in config, wanted string-array'')),
       readTaskScheduleDefinitionFromConfig = (\<lambda>c. Inr c) \<rparr>"

section \<open>Concrete inputs\<close>

text \<open>
  The inputs of the repository's tests: a cluster in the namespace \<open>clusters\<close> with an
  \<open>AWSManagedCluster\<close> infrastructure reference, a provider with the id \<open>default\<close> on the
  hub \<open>cluster1\<close>, a client that answers every list call with the same result and every
  secret read by the given function, and a catalog connection that accepts every mutation.
\<close>

definition exampleCluster :: "string \<Rightarrow> string obj option \<Rightarrow> cluster" where
  "exampleCluster nm anns =
     \<lparr> metadata = Some \<lparr> name = Some nm, namespace = Some ''clusters'', annotations = anns \<rparr>,
       spec = \<lparr> paused = False,
                controlPlaneRef = Some \<lparr> ref_kind = Some ''AWSManagedControlPlane'',
                  ref_namespace = None, ref_name = Some ''test-cluster-control-plane'' \<rparr>,
                infrastructureRef = Some \<lparr> ref_kind = Some ''AWSManagedCluster'',
                  ref_namespace = None, ref_name = Some ''test-cluster'' \<rparr> \<rparr>,
       status = Some \<lparr> phase = Some ''provisioning'', infrastructureReady = False,
                  controlPlaneReady = False \<rparr> \<rparr>"

text \<open>A cluster whose specification has no infrastructure reference.\<close>

definition bareCluster :: "string \<Rightarrow> cluster" where
  "bareCluster nm =
     \<lparr> metadata = Some \<lparr> name = Some nm, namespace = None, annotations = None \<rparr>,
       spec = \<lparr> paused = False, controlPlaneRef = None, infrastructureRef = None \<rparr>,
       status = None \<rparr>"

text \<open>
  A library whose handler passes the response through, whose base64 decoder is the
  identity and whose kubeconfig parser knows one document, \<open>kubeconfig\<close>; on any other
  payload it throws before it has stored a cluster.
\<close>

definition exampleLibrary :: library where
  "exampleLibrary =
     \<lparr> kubeApiResponseHandler = (\<lambda>r. r),
       bufferFromBase64 = (\<lambda>s. s),
       loadFromString = (\<lambda>s kc.
         if s = ''kubeconfig''
         then (None, kc\<lparr> clusters := [\<lparr> kc_name = ''kind'',
                 server = ''https://172.18.0.2:6443'', caData = Some ''LS0tLS1CRUdJTg'' \<rparr>] \<rparr>)
         else (Some (Error ''invalid kubeconfig''), kc)) \<rparr>"

definition exampleProvider ::
  "provider_defaults option \<Rightarrow> error + cluster_list \<Rightarrow> (string \<Rightarrow> string \<Rightarrow> error + secret)
     \<Rightarrow> unit provider" where
  "exampleProvider dflts listResult secrets =
     \<lparr> config = \<lparr> id = ''default'', hubClusterName = ''cluster1'', schedule = None,
                  defaults = dflts \<rparr>,
       customObjectsClient = \<lparr> listClusterCustomObject = (\<lambda>g v pl. listResult) \<rparr>,
       client = \<lparr> readNamespacedSecret = secrets \<rparr>,
       connection = Some \<lparr> applyMutation = (\<lambda>m. None) \<rparr> \<rparr>"

text \<open>The defaults of the tests' provider: an owner only.\<close>

definition ownerDefaults :: provider_defaults where
  "ownerDefaults =
     \<lparr> clusterOwner = Some ''group:test-team'', system = None, lifecycle = None, tags = None \<rparr>"

definition allDefaults :: provider_defaults where
  "allDefaults =
     \<lparr> clusterOwner = Some ''group:test-team'', system = Some ''test-system'',
       lifecycle = Some ''staging'', tags = Some [''tag1'', ''tag2'', ''tag3''] \<rparr>"

text \<open>A secret read that fails (404), and one that returns a secret with the payload.\<close>

definition secretMissing :: "string \<Rightarrow> string \<Rightarrow> error + secret" where
  "secretMissing nm ns = Inl (Error ''HTTP request failed'')"

definition secretWith :: "string \<Rightarrow> string \<Rightarrow> string \<Rightarrow> error + secret" where
  "secretWith payload nm ns =
     Inr \<lparr> s_type = Some ''cluster.x-k8s.io/secret'', s_data = Some [(''value'', payload)] \<rparr>"

definition emptyWorld :: world where
  "emptyWorld = \<lparr> logs = [], applied = [] \<rparr>"

text \<open>A provider without defaults whose hub has no cluster and no secret.\<close>

definition bareProvider :: "unit provider" where
  "bareProvider = exampleProvider None (Inr \<lparr> items = [] \<rparr>) secretMissing"

text \<open>A cluster whose tags annotation has blanks around one of its commas.\<close>

definition taggedCluster :: cluster where
  "taggedCluster = exampleCluster ''cluster2'' (Some [(ANNOTATION_CAPI_CLUSTER_TAGS, ''tag1, tag2,tag3'')])"

text \<open>A provider whose default tags differ from the annotation's.\<close>

definition otherTagsProvider :: "unit provider" where
  "otherTagsProvider = exampleProvider
     (Some \<lparr> clusterOwner = None, system = None, lifecycle = None, tags = Some [''imported'', ''capi''] \<rparr>)
     (Inr \<lparr> items = [taggedCluster] \<rparr>) secretMissing"

text \<open>A cluster whose owner, lifecycle and system annotations are empty strings.\<close>

definition blankCluster :: cluster where
  "blankCluster = exampleCluster ''cluster3''
     (Some [(ANNOTATION_CAPI_CLUSTER_OWNER, []), (ANNOTATION_CAPI_CLUSTER_LIFECYCLE, []),
            (ANNOTATION_CAPI_CLUSTER_SYSTEM, [])])"

text \<open>A provider with every default set, as in the test of the defaults.\<close>

definition defaultsProvider :: "unit provider" where
  "defaultsProvider = exampleProvider (Some allDefaults) (Inr \<lparr> items = [blankCluster] \<rparr>) secretMissing"

text \<open>The cluster of the test \<open>when the kubeconfig secret is not available\<close>.\<close>

definition productionCluster :: cluster where
  "productionCluster = exampleCluster ''cluster1''
     (Some [(ANNOTATION_CAPI_CLUSTER_LIFECYCLE, ''production'')])"

text \<open>The provider of that test: the read of the secret of its one cluster fails.\<close>

definition secretMissingProvider :: "unit provider" where
  "secretMissingProvider = exampleProvider (Some ownerDefaults)
     (Inr \<lparr> items = [productionCluster] \<rparr>) secretMissing"

text \<open>
  The same hub, with a secret whose payload, an opening brace, is not a YAML document.
\<close>

definition undecodableProvider :: "unit provider" where
  "undecodableProvider = exampleProvider (Some ownerDefaults)
     (Inr \<lparr> items = [productionCluster] \<rparr>) (secretWith ''{'')"

text \<open>A provider whose list call fails.\<close>

definition listFailsProvider :: "unit provider" where
  "listFailsProvider = exampleProvider (Some ownerDefaults)
     (Inl (Error ''HTTP request failed'')) secretMissing"

text \<open>A provider whose hub returns two clusters of the same name.\<close>

definition duplicateProvider :: "unit provider" where
  "duplicateProvider = exampleProvider None
     (Inr \<lparr> items = [bareCluster ''twin'', bareCluster ''twin''] \<rparr>) secretMissing"

text \<open>
  The configuration documents of the tests of \<open>readProviderConfigs\<close>: a root document
  around a \<open>catalog.providers.capi\<close> node, a single-provider node and a node with two
  named providers.
\<close>

definition capiConfig :: "json \<Rightarrow> json" where
  "capiConfig node = JObject [(''catalog'', JObject [(''providers'', JObject [(''capi'', node)])])]"

definition singleNode :: json where
  "singleNode = JObject
     [(''hubClusterName'', JString ''demo-cluster''),
      (''defaults'', JObject [(''clusterOwner'', JString ''group:team-lucky'')])]"

definition multiNode :: json where
  "multiNode = JObject
     [(''default'', JObject
        [(''hubClusterName'', JString ''default''),
         (''defaults'', JObject [(''clusterOwner'', JString ''group:team-lucky'')])]),
      (''cluster1'', JObject
        [(''hubClusterName'', JString ''eu-cluster''),
         (''defaults'', JObject [(''clusterOwner'', JString ''group:team-notso'')])])]"

section \<open>Facts about the model\<close>

lemmas annotation_keys =
  ANNOTATION_CAPI_PROVIDER_def ANNOTATION_CAPI_CLUSTER_LIFECYCLE_def
  ANNOTATION_CAPI_CLUSTER_OWNER_def ANNOTATION_CAPI_CLUSTER_DESCRIPTION_def
  ANNOTATION_CAPI_CLUSTER_SYSTEM_def ANNOTATION_CAPI_CLUSTER_TAGS_def
  ANNOTATION_LOCATION_def ANNOTATION_ORIGIN_LOCATION_def
  ANNOTATION_KUBERNETES_API_SERVER_def ANNOTATION_KUBERNETES_API_SERVER_CA_def
  ANNOTATION_KUBERNETES_AUTH_PROVIDER_def

lemma mapCluster_fields:
  "mapCluster p k c = Inr e \<Longrightarrow>
     e_spec e = e_spec (mapCluster0 p c) \<and>
     e_name (e_metadata e) = metadataName c \<and>
     e_description (e_metadata e) = e_description (e_metadata (mapCluster0 p c)) \<and>
     e_tags (e_metadata e) = e_tags (e_metadata (mapCluster0 p c))"
  by (auto simp: mapCluster_def mapCluster0_def Let_def split: sum.splits option.splits)

lemma mapCluster0_name: "e_name (e_metadata (mapCluster0 p c)) = metadataName c"
  by (simp add: mapCluster0_def Let_def)

lemma mapCluster_provider_annotation:
  "mapCluster p k c = Inr e \<Longrightarrow>
     map_of (e_annotations (e_metadata e)) ANNOTATION_CAPI_PROVIDER = Some (Some (capiClusterProvider c))"
  by (auto simp: mapCluster_def Let_def objectLiteral_def annotation_keys update_conv'
           split: sum.splits option.splits)

lemma mapCluster0_provider_annotation:
  "map_of (e_annotations (e_metadata (mapCluster0 p c))) ANNOTATION_CAPI_PROVIDER = Some (Some (capiClusterProvider c))"
  by (simp add: mapCluster0_def Let_def objectLiteral_def annotation_keys)

lemma mapCluster_throws_only_on_empty_kubeconfig:
  "mapCluster p k c = Inl err \<Longrightarrow> \<exists>kc. mapGet k (clusterName c) = Some kc \<and> clusters kc = []"
  by (auto simp: mapCluster_def Let_def firstServer_def firstCaData_def split: sum.splits option.splits list.splits)

lemma mapThrowing_names:
  "mapThrowing (mapCluster p k) cs = Inr rs \<Longrightarrow> map (\<lambda>e. e_name (e_metadata e)) rs = map metadataName cs"
proof (induction cs arbitrary: rs)
  case Nil
  then show ?case by simp
next
  case (Cons c cs)
  then show ?case
    by (auto split: sum.splits dest: mapCluster_fields)
qed

lemma logInfo_applied: "applied (logInfo msg w) = applied w"
  by (simp add: logInfo_def)

lemma decode_applied:
  "decodeKubeConfigFromSecret lib s w = (kc, w') \<Longrightarrow> applied w' = applied w"
  by (auto simp: decodeKubeConfigFromSecret_def Let_def logInfo_applied split: prod.splits option.splits)

lemma getClusterKubeConfig_applied:
  "getClusterKubeConfig lib cl nm ns w = (r, w') \<Longrightarrow> applied w' = applied w"
  by (auto simp: getClusterKubeConfig_def split: sum.splits prod.splits dest: decode_applied)

lemma lookupKubeConfig_applied:
  "lookupKubeConfig lib p c w = (pr, w') \<Longrightarrow> applied w' = applied w"
  by (auto simp: lookupKubeConfig_def Let_def logInfo_applied split: sum.splits prod.splits
           dest!: getClusterKubeConfig_applied)

lemma lookupKubeConfigs_applied:
  "lookupKubeConfigs lib p cs w = (prs, w') \<Longrightarrow> applied w' = applied w"
proof (induction cs arbitrary: w prs w')
  case Nil
  then show ?case by simp
next
  case (Cons c cs)
  obtain pr w1 where h1: "lookupKubeConfig lib p c w = (pr, w1)" by (cases "lookupKubeConfig lib p c w")
  obtain prs2 w2 where h2: "lookupKubeConfigs lib p cs w1 = (prs2, w2)" by (cases "lookupKubeConfigs lib p cs w1")
  have "applied w1 = applied w" using lookupKubeConfig_applied[OF h1] .
  moreover have "applied w2 = applied w1" using Cons.IH[OF h2] .
  moreover have "w' = w2" using Cons.prems h1 h2 by simp
  ultimately show ?case by simp
qed

lemma submit_applied: "applied (snd (submit conn m w)) = applied w @ [m]"
  by (simp add: submit_def Let_def split: option.splits)

lemma refresh_applied:
  "applied (snd (refresh lib p w)) = applied w \<or>
   (\<exists>cls k rs. getCAPIClusters lib (customObjectsClient p) = Inr cls \<and>
        mapThrowing (mapCluster p k) (items cls) = Inr rs \<and>
        applied (snd (refresh lib p w)) = applied w @ [fullMutation p rs])"
proof (cases "connection p")
  case None
  then show ?thesis by (simp add: refresh_def)
next
  case (Some conn)
  show ?thesis
  proof (cases "getCAPIClusters lib (customObjectsClient p)")
    case (Inl e)
    then show ?thesis using Some by (simp add: refresh_def Let_def logInfo_applied)
  next
    case (Inr cls)
    let ?w1 = "logInfo (''Providing CAPI Cluster resources from cluster '' @ hubClusterName (config p)) w"
    obtain prs w2 where h: "lookupKubeConfigs lib p (items cls) ?w1 = (prs, w2)"
      by (cases "lookupKubeConfigs lib p (items cls) ?w1")
    have a2: "applied w2 = applied w"
      using lookupKubeConfigs_applied[OF h] by (simp add: logInfo_applied)
    show ?thesis
    proof (cases "mapThrowing (mapCluster p (newMap prs)) (items cls)")
      case (Inl e)
      then show ?thesis using Some Inr h a2 by (simp add: refresh_def Let_def)
    next
      case (Inr rs)
      have "applied (snd (refresh lib p w)) = applied w @ [fullMutation p rs]"
        using Some \<open>getCAPIClusters lib (customObjectsClient p) = Inr cls\<close> h a2 Inr
        by (simp add: refresh_def Let_def submit_applied)
      then show ?thesis using Inr \<open>getCAPIClusters lib (customObjectsClient p) = Inr cls\<close> by blast
    qed
  qed
qed

lemma refresh0_applied:
  "applied (snd (refresh0 lib p w)) = applied w \<or>
   (\<exists>cls. getCAPIClusters lib (customObjectsClient p) = Inr cls \<and>
        applied (snd (refresh0 lib p w)) = applied w @ [fullMutation p (map (mapCluster0 p) (items cls))])"
  by (auto simp: refresh0_def Let_def logInfo_applied submit_applied split: option.splits sum.splits)

lemma fullMutation_entities:
  "map (\<lambda>d. e_name (e_metadata (entity d))) (entities (fullMutation p rs)) = map (\<lambda>e. e_name (e_metadata e)) rs"
  "d \<in> set (entities (fullMutation p rs)) \<Longrightarrow> locationKey d = ''CAPIClusterProvider:'' @ id (config p)"
  by (auto simp: fullMutation_def getProviderName_def comp_def)

lemma readProviderConfig_id: "readProviderConfig api i c = Inr pc \<Longrightarrow> id pc = i"
  by (auto simp: readProviderConfig_def split: sum.splits)

lemma readNamedProvider_id: "readNamedProvider api node k = Inr pc \<Longrightarrow> id pc = k"
  by (auto simp: readNamedProvider_def split: sum.splits dest: readProviderConfig_id)

lemma mapThrowing_Inr:
  "mapThrowing f xs = Inr ys \<Longrightarrow> length ys = length xs \<and> (\<forall>i < length xs. f (xs ! i) = Inr (ys ! i))"
proof (induction xs arbitrary: ys)
  case Nil
  then show ?case by simp
next
  case (Cons x xs)
  from Cons.prems obtain y ys' where fx: "f x = Inr y" and r: "mapThrowing f xs = Inr ys'" and ys: "ys = y # ys'"
    by (auto split: sum.splits)
  from Cons.IH[OF r] have l: "length ys' = length xs" and a: "\<forall>i < length xs. f (xs ! i) = Inr (ys' ! i)" by auto
  show ?case using fx ys l a by (auto simp: nth_Cons split: nat.splits)
qed

lemma mapThrowing_Inl:
  "mapThrowing f xs = Inl e \<Longrightarrow> \<exists>x \<in> set xs. f x = Inl e"
  by (induction xs) (auto split: sum.splits)

lemma mapThrowing_ids:
  "mapThrowing (readNamedProvider api node) ks = Inr pcs \<Longrightarrow> map id pcs = ks"
proof (induction ks arbitrary: pcs)
  case Nil
  then show ?case by simp
next
  case (Cons k ks)
  then show ?case by (auto split: sum.splits dest: readNamedProvider_id)
qed

section \<open>The entity mapper\<close>

text \<open>
  Claim C9. For a cluster whose \<open>spec.infrastructureRef\<close> is absent, or present without
  a \<open>kind\<close>, the provider-kind annotation of the mapped entity is the empty string, in
  both variants of the provider, and computing it never throws: \<open>capiClusterProvider\<close>
  is total, and a throw of the mapping callback comes from a kubeconfig without
  clusters only.
\<close>

theorem C9_provider_kind_absent:
  assumes "infrastructureRef (spec c) = None \<or>
           (\<exists>r. infrastructureRef (spec c) = Some r \<and> ref_kind r = None)"
  shows "capiClusterProvider c = [] \<and>
         map_of (e_annotations (e_metadata (mapCluster0 p c))) ANNOTATION_CAPI_PROVIDER = Some (Some []) \<and>
         (\<forall>e. mapCluster p k c = Inr e \<longrightarrow>
              map_of (e_annotations (e_metadata e)) ANNOTATION_CAPI_PROVIDER = Some (Some [])) \<and>
         (\<forall>err. mapCluster p k c = Inl err \<longrightarrow>
              (\<exists>kc. mapGet k (clusterName c) = Some kc \<and> clusters kc = []))"
proof -
  have kind: "capiClusterProvider c = []"
    using assms by (auto simp: capiClusterProvider_def)
  have old: "map_of (e_annotations (e_metadata (mapCluster0 p c))) ANNOTATION_CAPI_PROVIDER = Some (Some [])"
    using mapCluster0_provider_annotation[of p c] kind by simp
  have new: "\<forall>e. mapCluster p k c = Inr e \<longrightarrow>
              map_of (e_annotations (e_metadata e)) ANNOTATION_CAPI_PROVIDER = Some (Some [])"
    using mapCluster_provider_annotation[of p k c] kind by simp
  have thr: "\<forall>err. mapCluster p k c = Inl err \<longrightarrow>
              (\<exists>kc. mapGet k (clusterName c) = Some kc \<and> clusters kc = [])"
    using mapCluster_throws_only_on_empty_kubeconfig[of p k c] by blast
  show ?thesis using kind old new thr by blast
qed

theorem C9_provider_kind_absent_witness:
  "infrastructureRef (spec (bareCluster ''cluster1'')) = None \<and>
   capiClusterProvider (bareCluster ''cluster1'') = [] \<and>
   map_of (e_annotations (e_metadata (mapCluster0 bareProvider (bareCluster ''cluster1''))))
     ANNOTATION_CAPI_PROVIDER = Some (Some []) \<and>
   (\<exists>e. mapCluster bareProvider [] (bareCluster ''cluster1'') = Inr e \<and>
        map_of (e_annotations (e_metadata e)) ANNOTATION_CAPI_PROVIDER = Some (Some []))"
proof -
  have h: "infrastructureRef (spec (bareCluster ''cluster1'')) = None"
    by (simp add: bareCluster_def)
  have r: "\<exists>e. mapCluster bareProvider [] (bareCluster ''cluster1'') = Inr e"
    by (simp add: mapCluster_def mapGet_def firstServer_def firstCaData_def Let_def)
  show ?thesis
    using h r C9_provider_kind_absent[of "bareCluster ''cluster1''" bareProvider "[]"]
    by blast
qed

text \<open>
  Claim C5. A cluster that carries none of the lifecycle, owner, description, system and
  tags annotations, mapped by a provider without defaults, gives an entity whose owner is
  \<open>guest\<close> and whose lifecycle, system, tags and description are unset (\<open>undefined\<close>,
  not the empty string). The owner is the annotation if it is truthy, else the
  provider's default owner if that is truthy, else the literal \<open>guest\<close>. The entity
  \<open>e\<close> is the result of either variant of the mapping callback.
\<close>

theorem C5_no_annotations_no_defaults:
  assumes "e = mapCluster0 p c \<or> mapCluster p k c = Inr e"
  shows "(annotation c ANNOTATION_CAPI_CLUSTER_LIFECYCLE = None \<and>
          annotation c ANNOTATION_CAPI_CLUSTER_OWNER = None \<and>
          annotation c ANNOTATION_CAPI_CLUSTER_DESCRIPTION = None \<and>
          annotation c ANNOTATION_CAPI_CLUSTER_SYSTEM = None \<and>
          annotation c ANNOTATION_CAPI_CLUSTER_TAGS = None \<and>
          defaults (config p) = None \<longrightarrow>
            e_owner (e_spec e) = ''guest'' \<and> e_lifecycle (e_spec e) = None \<and>
            e_system (e_spec e) = None \<and> e_tags (e_metadata e) = None \<and>
            e_description (e_metadata e) = None) \<and>
         (\<forall>s. annotation c ANNOTATION_CAPI_CLUSTER_OWNER = Some s \<and> s \<noteq> [] \<longrightarrow>
              e_owner (e_spec e) = s) \<and>
         (annotation c ANNOTATION_CAPI_CLUSTER_OWNER = None \<or>
          annotation c ANNOTATION_CAPI_CLUSTER_OWNER = Some [] \<longrightarrow>
            (\<forall>d. configDefault clusterOwner p = Some d \<and> d \<noteq> [] \<longrightarrow> e_owner (e_spec e) = d) \<and>
            (configDefault clusterOwner p = None \<or> configDefault clusterOwner p = Some [] \<longrightarrow>
               e_owner (e_spec e) = ''guest''))"
proof -
  have sp: "e_spec e = e_spec (mapCluster0 p c)"
    and tg: "e_tags (e_metadata e) = e_tags (e_metadata (mapCluster0 p c))"
    and ds: "e_description (e_metadata e) = e_description (e_metadata (mapCluster0 p c))"
    using assms mapCluster_fields[of p k c e] by auto
  show ?thesis
    unfolding sp tg ds
    by (auto simp: mapCluster0_def clusterAnnotations_def configDefault_def orStr_def orLit_def
                   orArr_def truthy_def Let_def)
qed

lemma bare_annotation: "annotation (bareCluster nm) key = None"
  by (simp add: annotation_def bareCluster_def)

theorem C5_no_annotations_no_defaults_witness:
  "mapCluster bareProvider [] (bareCluster ''cluster1'') = Inr
     \<lparr> e_kind = ''Resource'', e_apiVersion = ''backstage.io/v1beta1'',
       e_metadata = \<lparr> e_name = Some ''cluster1'', e_title = Some ''cluster1'',
         e_description = None,
         e_annotations = [(ANNOTATION_LOCATION, Some ''CAPIClusterProvider:default''),
                (ANNOTATION_ORIGIN_LOCATION, Some ''CAPIClusterProvider:default''),
                (ANNOTATION_CAPI_PROVIDER, Some []),
                (ANNOTATION_KUBERNETES_API_SERVER, None),
                (ANNOTATION_KUBERNETES_API_SERVER_CA, None),
                (ANNOTATION_KUBERNETES_AUTH_PROVIDER, Some ''oidc'')],
         e_tags = None \<rparr>,
       e_spec = \<lparr> e_owner = ''guest'', e_type = ''kubernetes-cluster'',
         e_lifecycle = None, e_system = None \<rparr> \<rparr> \<and>
   defaults (config bareProvider) = None \<and>
   e_owner (e_spec (mapCluster0 bareProvider (bareCluster ''cluster1''))) = ''guest'' \<and>
   e_lifecycle (e_spec (mapCluster0 bareProvider (bareCluster ''cluster1''))) = None \<and>
   e_system (e_spec (mapCluster0 bareProvider (bareCluster ''cluster1''))) = None \<and>
   e_tags (e_metadata (mapCluster0 bareProvider (bareCluster ''cluster1''))) = None \<and>
   e_description (e_metadata (mapCluster0 bareProvider (bareCluster ''cluster1''))) = None"
proof -
  have m: "mapCluster bareProvider [] (bareCluster ''cluster1'') = Inr
     \<lparr> e_kind = ''Resource'', e_apiVersion = ''backstage.io/v1beta1'',
       e_metadata = \<lparr> e_name = Some ''cluster1'', e_title = Some ''cluster1'',
         e_description = None,
         e_annotations = [(ANNOTATION_LOCATION, Some ''CAPIClusterProvider:default''),
                (ANNOTATION_ORIGIN_LOCATION, Some ''CAPIClusterProvider:default''),
                (ANNOTATION_CAPI_PROVIDER, Some []),
                (ANNOTATION_KUBERNETES_API_SERVER, None),
                (ANNOTATION_KUBERNETES_API_SERVER_CA, None),
                (ANNOTATION_KUBERNETES_AUTH_PROVIDER, Some ''oidc'')],
         e_tags = None \<rparr>,
       e_spec = \<lparr> e_owner = ''guest'', e_type = ''kubernetes-cluster'',
         e_lifecycle = None, e_system = None \<rparr> \<rparr>"
    by code_simp
  have d: "defaults (config bareProvider) = None"
    by (simp add: bareProvider_def exampleProvider_def)
  show ?thesis
    using m d bare_annotation
      C5_no_annotations_no_defaults[of "mapCluster0 bareProvider (bareCluster ''cluster1'')"
        bareProvider "bareCluster ''cluster1''" "[]"]
    by simp
qed

text \<open>
  Claim C6. The tags of the mapped entity are the tokens of the tags annotation, split
  at the commas and trimmed, whatever the provider's default tags are; for the
  annotation \<open>tag1, tag2,tag3\<close> they are \<open>tag1\<close>, \<open>tag2\<close> and \<open>tag3\<close>.
\<close>

theorem C6_tags_annotation:
  assumes "annotation c ANNOTATION_CAPI_CLUSTER_TAGS = Some s"
    and "e = mapCluster0 p c \<or> mapCluster p k c = Inr e"
  shows "e_tags (e_metadata e) = Some (map trim (split CHR '','' s)) \<and>
         (s = ''tag1, tag2,tag3'' \<longrightarrow> e_tags (e_metadata e) = Some [''tag1'', ''tag2'', ''tag3''])"
proof -
  have tg: "e_tags (e_metadata e) = e_tags (e_metadata (mapCluster0 p c))"
    using assms(2) mapCluster_fields[of p k c e] by auto
  have gen: "e_tags (e_metadata e) = Some (map trim (split CHR '','' s))"
    unfolding tg using assms(1)
    by (simp add: mapCluster0_def clusterAnnotations_def orArr_def Let_def)
  have ev: "map trim (split CHR '','' ''tag1, tag2,tag3'') = [''tag1'', ''tag2'', ''tag3'']"
    by code_simp
  show ?thesis using gen ev by simp
qed

theorem C6_tags_annotation_witness:
  "annotation taggedCluster ANNOTATION_CAPI_CLUSTER_TAGS = Some ''tag1, tag2,tag3'' \<and>
   configDefault tags otherTagsProvider = Some [''imported'', ''capi''] \<and>
   e_tags (e_metadata (mapCluster0 otherTagsProvider taggedCluster)) = Some [''tag1'', ''tag2'', ''tag3''] \<and>
   (\<exists>e. mapCluster otherTagsProvider [] taggedCluster = Inr e \<and>
        e_tags (e_metadata e) = Some [''tag1'', ''tag2'', ''tag3''])"
proof -
  have a: "annotation taggedCluster ANNOTATION_CAPI_CLUSTER_TAGS = Some ''tag1, tag2,tag3''"
    by (simp add: annotation_def taggedCluster_def exampleCluster_def)
  have d: "configDefault tags otherTagsProvider = Some [''imported'', ''capi'']"
    by (simp add: configDefault_def otherTagsProvider_def exampleProvider_def)
  have "\<exists>e. mapCluster otherTagsProvider [] taggedCluster = Inr e"
    by (simp add: mapCluster_def mapGet_def firstServer_def firstCaData_def Let_def)
  then obtain e where r: "mapCluster otherTagsProvider [] taggedCluster = Inr e" ..
  have new: "e_tags (e_metadata e) = Some [''tag1'', ''tag2'', ''tag3'']"
    using r C6_tags_annotation[OF a, of e otherTagsProvider "[]"] by blast
  have old: "e_tags (e_metadata (mapCluster0 otherTagsProvider taggedCluster)) = Some [''tag1'', ''tag2'', ''tag3'']"
    using C6_tags_annotation[OF a, of "mapCluster0 otherTagsProvider taggedCluster" otherTagsProvider "[]"]
    by blast
  show ?thesis using a d old new r by blast
qed

text \<open>
  Claim C10. An owner, lifecycle or system annotation whose value is the empty string
  counts as absent: the field is the provider's default (for the owner, \<open>guest\<close> when
  the default is absent or empty too), which is also what a cluster without the
  annotation gets. Truthiness of the value decides, not the presence of the key.
\<close>

theorem C10_empty_annotation_is_absent:
  assumes "e = mapCluster0 p c \<or> mapCluster p k c = Inr e"
  shows "(annotation c ANNOTATION_CAPI_CLUSTER_OWNER = Some [] \<longrightarrow>
            (\<forall>d. configDefault clusterOwner p = Some d \<and> d \<noteq> [] \<longrightarrow> e_owner (e_spec e) = d) \<and>
            (configDefault clusterOwner p = None \<or> configDefault clusterOwner p = Some [] \<longrightarrow>
               e_owner (e_spec e) = ''guest'') \<and>
            (\<forall>c'. annotation c' ANNOTATION_CAPI_CLUSTER_OWNER = None \<longrightarrow>
               e_owner (e_spec (mapCluster0 p c')) = e_owner (e_spec e))) \<and>
         (annotation c ANNOTATION_CAPI_CLUSTER_LIFECYCLE = Some [] \<longrightarrow>
            e_lifecycle (e_spec e) = configDefault lifecycle p \<and>
            (\<forall>c'. annotation c' ANNOTATION_CAPI_CLUSTER_LIFECYCLE = None \<longrightarrow>
               e_lifecycle (e_spec (mapCluster0 p c')) = e_lifecycle (e_spec e))) \<and>
         (annotation c ANNOTATION_CAPI_CLUSTER_SYSTEM = Some [] \<longrightarrow>
            e_system (e_spec e) = configDefault system p \<and>
            (\<forall>c'. annotation c' ANNOTATION_CAPI_CLUSTER_SYSTEM = None \<longrightarrow>
               e_system (e_spec (mapCluster0 p c')) = e_system (e_spec e)))"
proof -
  have sp: "e_spec e = e_spec (mapCluster0 p c)"
    using assms mapCluster_fields[of p k c e] by auto
  show ?thesis
    unfolding sp
    by (auto simp: mapCluster0_def clusterAnnotations_def configDefault_def orStr_def orLit_def
                   truthy_def Let_def)
qed

theorem C10_empty_annotation_is_absent_witness:
  "annotation blankCluster ANNOTATION_CAPI_CLUSTER_OWNER = Some [] \<and>
   annotation blankCluster ANNOTATION_CAPI_CLUSTER_LIFECYCLE = Some [] \<and>
   annotation blankCluster ANNOTATION_CAPI_CLUSTER_SYSTEM = Some [] \<and>
   e_spec (mapCluster0 defaultsProvider blankCluster) =
     \<lparr> e_owner = ''group:test-team'', e_type = ''kubernetes-cluster'',
       e_lifecycle = Some ''staging'', e_system = Some ''test-system'' \<rparr> \<and>
   e_owner (e_spec (mapCluster0 bareProvider blankCluster)) = ''guest''"
proof -
  have a: "annotation blankCluster ANNOTATION_CAPI_CLUSTER_OWNER = Some []"
    "annotation blankCluster ANNOTATION_CAPI_CLUSTER_LIFECYCLE = Some []"
    "annotation blankCluster ANNOTATION_CAPI_CLUSTER_SYSTEM = Some []"
    by (simp_all add: annotation_def blankCluster_def exampleCluster_def annotation_keys)
  have d: "configDefault clusterOwner defaultsProvider = Some ''group:test-team''"
    "configDefault lifecycle defaultsProvider = Some ''staging''"
    "configDefault system defaultsProvider = Some ''test-system''"
    "configDefault clusterOwner bareProvider = None"
    by (simp_all add: configDefault_def defaultsProvider_def bareProvider_def exampleProvider_def allDefaults_def)
  have t: "e_type (e_spec (mapCluster0 defaultsProvider blankCluster)) = ''kubernetes-cluster''"
    by (simp add: mapCluster0_def Let_def)
  have "e_spec (mapCluster0 defaultsProvider blankCluster) =
     \<lparr> e_owner = ''group:test-team'', e_type = ''kubernetes-cluster'',
       e_lifecycle = Some ''staging'', e_system = Some ''test-system'' \<rparr>"
    using a d t
      C10_empty_annotation_is_absent[of "mapCluster0 defaultsProvider blankCluster" defaultsProvider blankCluster "[]"]
    by (cases "e_spec (mapCluster0 defaultsProvider blankCluster)") simp
  moreover have "e_owner (e_spec (mapCluster0 bareProvider blankCluster)) = ''guest''"
    using a d
      C10_empty_annotation_is_absent[of "mapCluster0 bareProvider blankCluster" bareProvider blankCluster "[]"]
    by simp
  ultimately show ?thesis using a by simp
qed

section \<open>The refresh cycle\<close>

text \<open>
  Claim C1. When the kubeconfig secret of a cluster cannot be read, the mapped entity
  should carry none of the three API-server annotations. Run on the input of the
  repository's test \<open>when the kubeconfig secret is not available\<close>, the cycle submits an
  entity whose annotations hold all three keys: the object literal of the mapping
  callback sets them before the test \<open>if (clusterKubeConfig)\<close>, the server and the CA
  data to \<open>undefined\<close> and the auth provider to \<open>oidc\<close>. The test expects the first
  three annotations only.
\<close>

theorem C1_secret_missing_sets_annotations:
  "readNamespacedSecret (client secretMissingProvider) ''cluster1-kubeconfig'' ''clusters'' =
     Inl (Error ''HTTP request failed'') \<and>
   fst (refresh exampleLibrary secretMissingProvider emptyWorld) = Inr () \<and>
   map (\<lambda>m. map (\<lambda>d. e_annotations (e_metadata (entity d))) (entities m))
     (applied (snd (refresh exampleLibrary secretMissingProvider emptyWorld))) =
     [[[(ANNOTATION_LOCATION, Some ''CAPIClusterProvider:default''),
        (ANNOTATION_ORIGIN_LOCATION, Some ''CAPIClusterProvider:default''),
        (ANNOTATION_CAPI_PROVIDER, Some ''AWSManagedCluster''),
        (ANNOTATION_KUBERNETES_API_SERVER, None),
        (ANNOTATION_KUBERNETES_API_SERVER_CA, None),
        (ANNOTATION_KUBERNETES_AUTH_PROVIDER, Some ''oidc'')]]]"
  by code_simp

text \<open>
  Claim C2. When the secret is read but its payload is not a kubeconfig document, the
  cluster should be mapped without credentials and the mutation submitted. The parser's
  exception is caught and logged by \<open>decodeKubeConfigFromSecret\<close>, which then returns
  the \<open>KubeConfig\<close> it created, without clusters. That object is truthy, so the mapping
  callback reads \<open>clusters[0].server\<close> of it and throws a \<open>TypeError\<close>: the cycle ends
  with nothing submitted.
\<close>

theorem C2_decode_failure_aborts:
  "readNamespacedSecret (client undecodableProvider) ''cluster1-kubeconfig'' ''clusters'' =
     Inr \<lparr> s_type = Some ''cluster.x-k8s.io/secret'', s_data = Some [(''value'', ''{'')] \<rparr> \<and>
   loadFromString exampleLibrary ''{'' newKubeConfig =
     (Some (Error ''invalid kubeconfig''), newKubeConfig) \<and>
   refresh exampleLibrary undecodableProvider emptyWorld =
     (Inl (TypeError ''Cannot read properties of undefined (reading server)''),
      \<lparr> logs = [LogInfo ''Providing CAPI Cluster resources from cluster cluster1'',
                LogInfo ''Getting KubeConfig Secret for clusters/cluster1'',
                LogInfo ''caught error Error: invalid kubeconfig''],
        applied = [] \<rparr>) \<and>
   scheduledFn exampleLibrary undecodableProvider emptyWorld =
     (Inr (),
      \<lparr> logs = [LogInfo ''Providing CAPI Cluster resources from cluster cluster1'',
                LogInfo ''Getting KubeConfig Secret for clusters/cluster1'',
                LogInfo ''caught error Error: invalid kubeconfig'',
                LogError ''CAPIClusterProvider:default refresh failed''
                  (TypeError ''Cannot read properties of undefined (reading server)'')],
        applied = [] \<rparr>)"
  by code_simp

text \<open>
  Claim C4. When the list call fails, the cycle passes no mutation to \<open>applyMutation\<close>
  and raises the error of the list call; the scheduled unit of work catches it, writes
  it to the log with the provider's name and returns normally. This holds for both
  variants of the provider.
\<close>

theorem C4_list_failure:
  assumes "getCAPIClusters lib (customObjectsClient p) = Inl err"
  shows "applied (snd (refresh lib p w)) = applied w \<and>
         (connection p \<noteq> None \<longrightarrow> fst (refresh lib p w) = Inl err) \<and>
         fst (scheduledFn lib p w) = Inr () \<and>
         applied (snd (scheduledFn lib p w)) = applied w \<and>
         (\<exists>e. fst (refresh lib p w) = Inl e \<and>
              logs (snd (scheduledFn lib p w)) =
                logs (snd (refresh lib p w)) @ [LogError (getProviderName p @ '' refresh failed'') e]) \<and>
         applied (snd (refresh0 lib p w)) = applied w \<and>
         (connection p \<noteq> None \<longrightarrow> fst (refresh0 lib p w) = Inl err) \<and>
         fst (scheduledFn0 lib p w) = Inr () \<and>
         applied (snd (scheduledFn0 lib p w)) = applied w \<and>
         (\<exists>e. fst (refresh0 lib p w) = Inl e \<and>
              logs (snd (scheduledFn0 lib p w)) =
                logs (snd (refresh0 lib p w)) @ [LogError (getProviderName p @ '' refresh failed'') e])"
proof -
  have r: "refresh lib p w =
      (case connection p of None \<Rightarrow> (Inl (Error ''Not initialized''), w)
       | Some conn \<Rightarrow> (Inl err, logInfo (''Providing CAPI Cluster resources from cluster ''
                               @ hubClusterName (config p)) w))"
    using assms by (simp add: refresh_def Let_def split: option.splits)
  have r0: "refresh0 lib p w =
      (case connection p of None \<Rightarrow> (Inl (Error ''Not initialized''), w)
       | Some conn \<Rightarrow> (Inl err, logInfo (''Providing CAPI Cluster resources from cluster ''
                               @ hubClusterName (config p)) w))"
    using assms by (simp add: refresh0_def Let_def split: option.splits)
  have a: "applied (snd (refresh lib p w)) = applied w \<and>
         (connection p \<noteq> None \<longrightarrow> fst (refresh lib p w) = Inl err) \<and>
         fst (scheduledFn lib p w) = Inr () \<and>
         applied (snd (scheduledFn lib p w)) = applied w \<and>
         (\<exists>e. fst (refresh lib p w) = Inl e \<and>
              logs (snd (scheduledFn lib p w)) =
                logs (snd (refresh lib p w)) @ [LogError (getProviderName p @ '' refresh failed'') e])"
    by (cases "connection p") (simp_all add: r scheduledFn_def logInfo_def logError_def)
  have b: "applied (snd (refresh0 lib p w)) = applied w \<and>
         (connection p \<noteq> None \<longrightarrow> fst (refresh0 lib p w) = Inl err) \<and>
         fst (scheduledFn0 lib p w) = Inr () \<and>
         applied (snd (scheduledFn0 lib p w)) = applied w \<and>
         (\<exists>e. fst (refresh0 lib p w) = Inl e \<and>
              logs (snd (scheduledFn0 lib p w)) =
                logs (snd (refresh0 lib p w)) @ [LogError (getProviderName p @ '' refresh failed'') e])"
    by (cases "connection p") (simp_all add: r0 scheduledFn0_def logInfo_def logError_def)
  show ?thesis using a b by blast
qed

theorem C4_list_failure_witness:
  "getCAPIClusters exampleLibrary (customObjectsClient listFailsProvider) = Inl (Error ''HTTP request failed'') \<and>
   applied (snd (refresh exampleLibrary listFailsProvider emptyWorld)) = [] \<and>
   fst (refresh exampleLibrary listFailsProvider emptyWorld) = Inl (Error ''HTTP request failed'') \<and>
   scheduledFn exampleLibrary listFailsProvider emptyWorld =
     (Inr (), \<lparr> logs = [LogInfo ''Providing CAPI Cluster resources from cluster cluster1'',
                         LogError ''CAPIClusterProvider:default refresh failed'' (Error ''HTTP request failed'')],
                 applied = [] \<rparr>)"
proof -
  have h: "getCAPIClusters exampleLibrary (customObjectsClient listFailsProvider) = Inl (Error ''HTTP request failed'')"
    by (simp add: getCAPIClusters_def exampleLibrary_def listFailsProvider_def exampleProvider_def)
  have c: "connection listFailsProvider \<noteq> None"
    by (simp add: listFailsProvider_def exampleProvider_def)
  have s: "scheduledFn exampleLibrary listFailsProvider emptyWorld =
     (Inr (), \<lparr> logs = [LogInfo ''Providing CAPI Cluster resources from cluster cluster1'',
                         LogError ''CAPIClusterProvider:default refresh failed'' (Error ''HTTP request failed'')],
                 applied = [] \<rparr>)"
    by code_simp
  have e: "applied emptyWorld = []" by (simp add: emptyWorld_def)
  show ?thesis
    using h c s e C4_list_failure[OF h, of emptyWorld]
    by simp
qed

text \<open>
  Claim C7. Every mutation that a cycle submits has one entry per cluster of the list
  result, in the order of the list; the name of each entity is the name of its cluster,
  and the location key of every entry is \<open>CAPIClusterProvider:\<close> followed by the id of
  the provider. Two clusters of the same name give two entries of that name: nothing is
  removed.
\<close>

theorem C7_names_and_location_key:
  assumes "m \<in> set (drop (length (applied w)) (applied (snd (refresh lib p w)))) \<or>
           m \<in> set (drop (length (applied w)) (applied (snd (refresh0 lib p w))))"
  shows "\<exists>cls. getCAPIClusters lib (customObjectsClient p) = Inr cls \<and>
           map (\<lambda>d. e_name (e_metadata (entity d))) (entities m) = map metadataName (items cls) \<and>
           length (entities m) = length (items cls) \<and>
           (\<forall>d \<in> set (entities m). locationKey d = ''CAPIClusterProvider:'' @ id (config p))"
proof -
  have "\<exists>cls rs. getCAPIClusters lib (customObjectsClient p) = Inr cls \<and> m = fullMutation p rs \<and>
          map (\<lambda>e. e_name (e_metadata e)) rs = map metadataName (items cls)"
    using assms
  proof
    assume a: "m \<in> set (drop (length (applied w)) (applied (snd (refresh lib p w))))"
    from refresh_applied[of lib p w] show ?thesis
    proof
      assume "applied (snd (refresh lib p w)) = applied w"
      with a show ?thesis by simp
    next
      assume "\<exists>cls k rs. getCAPIClusters lib (customObjectsClient p) = Inr cls \<and>
        mapThrowing (mapCluster p k) (items cls) = Inr rs \<and>
        applied (snd (refresh lib p w)) = applied w @ [fullMutation p rs]"
      then obtain cls k rs where g: "getCAPIClusters lib (customObjectsClient p) = Inr cls"
        and mt: "mapThrowing (mapCluster p k) (items cls) = Inr rs"
        and ap: "applied (snd (refresh lib p w)) = applied w @ [fullMutation p rs]" by blast
      from a ap have "m = fullMutation p rs" by simp
      with g mapThrowing_names[OF mt] show ?thesis by blast
    qed
  next
    assume a: "m \<in> set (drop (length (applied w)) (applied (snd (refresh0 lib p w))))"
    from refresh0_applied[of lib p w] show ?thesis
    proof
      assume "applied (snd (refresh0 lib p w)) = applied w"
      with a show ?thesis by simp
    next
      assume "\<exists>cls. getCAPIClusters lib (customObjectsClient p) = Inr cls \<and>
        applied (snd (refresh0 lib p w)) = applied w @ [fullMutation p (map (mapCluster0 p) (items cls))]"
      then obtain cls where g: "getCAPIClusters lib (customObjectsClient p) = Inr cls"
        and ap: "applied (snd (refresh0 lib p w)) = applied w @ [fullMutation p (map (mapCluster0 p) (items cls))]"
        by blast
      from a ap have "m = fullMutation p (map (mapCluster0 p) (items cls))" by simp
      moreover have "map (\<lambda>e. e_name (e_metadata e)) (map (mapCluster0 p) (items cls)) = map metadataName (items cls)"
        by (simp add: mapCluster0_name comp_def)
      ultimately show ?thesis using g by blast
    qed
  qed
  then obtain cls rs where g: "getCAPIClusters lib (customObjectsClient p) = Inr cls"
    and m: "m = fullMutation p rs"
    and n: "map (\<lambda>e. e_name (e_metadata e)) rs = map metadataName (items cls)" by blast
  have names: "map (\<lambda>d. e_name (e_metadata (entity d))) (entities m) = map metadataName (items cls)"
    using m n fullMutation_entities(1)[of p rs] by simp
  have len: "length (entities m) = length (items cls)"
    using names by (metis length_map)
  have keys: "\<forall>d \<in> set (entities m). locationKey d = ''CAPIClusterProvider:'' @ id (config p)"
    using m fullMutation_entities(2)[of _ p rs] by blast
  show ?thesis using g names len keys by blast
qed

theorem C7_names_and_location_key_witness:
  "\<exists>m. applied (snd (refresh exampleLibrary duplicateProvider emptyWorld)) = [m] \<and>
       map (\<lambda>d. e_name (e_metadata (entity d))) (entities m) = [Some ''twin'', Some ''twin''] \<and>
       (\<forall>d \<in> set (entities m). locationKey d = ''CAPIClusterProvider:default'')"
proof -
  have "length (applied (snd (refresh exampleLibrary duplicateProvider emptyWorld))) = 1"
    by code_simp
  then obtain m where ap: "applied (snd (refresh exampleLibrary duplicateProvider emptyWorld)) = [m]"
    by (cases "applied (snd (refresh exampleLibrary duplicateProvider emptyWorld))") auto
  have e: "applied emptyWorld = []" by (simp add: emptyWorld_def)
  have h: "m \<in> set (drop (length (applied emptyWorld))
                 (applied (snd (refresh exampleLibrary duplicateProvider emptyWorld)))) \<or>
           m \<in> set (drop (length (applied emptyWorld))
                 (applied (snd (refresh0 exampleLibrary duplicateProvider emptyWorld))))"
    using ap e by simp
  have g: "getCAPIClusters exampleLibrary (customObjectsClient duplicateProvider) =
             Inr \<lparr> items = [bareCluster ''twin'', bareCluster ''twin''] \<rparr>"
    by (simp add: getCAPIClusters_def exampleLibrary_def duplicateProvider_def exampleProvider_def)
  have n: "metadataName (bareCluster ''twin'') = Some ''twin''"
    by (simp add: metadataName_def bareCluster_def)
  have i: "id (config duplicateProvider) = ''default''"
    by (simp add: duplicateProvider_def exampleProvider_def)
  show ?thesis
    using ap g n i C7_names_and_location_key[OF h] by auto
qed

text \<open>
  Claim C8. A cycle whose list call returns no cluster calls \<open>applyMutation\<close> once,
  with a mutation of type \<open>full\<close> and an empty list of entities. The provider is
  connected: an unconnected one throws before it lists.
\<close>

theorem C8_no_clusters_submits_empty:
  assumes "connection p = Some conn"
    and "getCAPIClusters lib (customObjectsClient p) = Inr cls"
    and "items cls = []"
  shows "applied (snd (refresh lib p w)) = applied w @ [\<lparr> m_type = ''full'', entities = [] \<rparr>] \<and>
         applied (snd (refresh0 lib p w)) = applied w @ [\<lparr> m_type = ''full'', entities = [] \<rparr>]"
  using assms
  by (simp add: refresh_def refresh0_def Let_def submit_applied fullMutation_def logInfo_applied)

theorem C8_no_clusters_submits_empty_witness:
  "connection bareProvider = Some \<lparr> applyMutation = (\<lambda>m. None) \<rparr> \<and>
   getCAPIClusters exampleLibrary (customObjectsClient bareProvider) = Inr \<lparr> items = [] \<rparr> \<and>
   applied (snd (refresh exampleLibrary bareProvider emptyWorld)) = [\<lparr> m_type = ''full'', entities = [] \<rparr>] \<and>
   applied (snd (refresh0 exampleLibrary bareProvider emptyWorld)) = [\<lparr> m_type = ''full'', entities = [] \<rparr>]"
proof -
  have c: "connection bareProvider = Some \<lparr> applyMutation = (\<lambda>m. None) \<rparr>"
    by (simp add: bareProvider_def exampleProvider_def)
  have g: "getCAPIClusters exampleLibrary (customObjectsClient bareProvider) = Inr \<lparr> items = [] \<rparr>"
    by (simp add: getCAPIClusters_def exampleLibrary_def bareProvider_def exampleProvider_def)
  have i: "items \<lparr> items = [] \<rparr> = []" by simp
  have e: "applied emptyWorld = []" by (simp add: emptyWorld_def)
  show ?thesis
    using c g e C8_no_clusters_submits_empty[OF c g i, of emptyWorld]
    by simp
qed

section \<open>Reading the provider configuration\<close>

text \<open>
  Claim C3. \<open>readProviderConfigs\<close> returns the empty list when the node
  \<open>catalog.providers.capi\<close> is absent. When the node has a field \<open>hubClusterName\<close>, the
  result is that of \<open>readProviderConfig\<close> on the node with the id \<open>default\<close>: its error,
  or the one provider it returns. Otherwise every child key is read by the same
  \<open>readProviderConfig\<close> under its own name: a result has one provider per key, in the
  order of the keys, each with its key as id, and an error is the error of a child.
\<close>

theorem C3_readProviderConfigs:
  "(getOptionalConfig api cfg ''catalog.providers.capi'' = Inr None \<longrightarrow>
      readProviderConfigs api cfg = Inr []) \<and>
   (\<forall>node. getOptionalConfig api cfg ''catalog.providers.capi'' = Inr (Some node) \<and>
           has api node ''hubClusterName'' = Inr True \<longrightarrow>
      (\<forall>e. readProviderConfig api ''default'' node = Inl e \<longrightarrow> readProviderConfigs api cfg = Inl e) \<and>
      (\<forall>pc. readProviderConfig api ''default'' node = Inr pc \<longrightarrow>
            readProviderConfigs api cfg = Inr [pc] \<and> id pc = ''default'')) \<and>
   (\<forall>node. getOptionalConfig api cfg ''catalog.providers.capi'' = Inr (Some node) \<and>
           has api node ''hubClusterName'' = Inr False \<longrightarrow>
      (\<forall>pcs. readProviderConfigs api cfg = Inr pcs \<longrightarrow>
            length pcs = length (keys api node) \<and> map id pcs = keys api node \<and>
            (\<forall>i < length (keys api node).
               readNamedProvider api node (keys api node ! i) = Inr (pcs ! i))) \<and>
      (\<forall>e. readProviderConfigs api cfg = Inl e \<longrightarrow>
            (\<exists>k \<in> set (keys api node). readNamedProvider api node k = Inl e)))"
proof -
  have absent: "getOptionalConfig api cfg ''catalog.providers.capi'' = Inr None \<longrightarrow>
      readProviderConfigs api cfg = Inr []"
    by (simp add: readProviderConfigs_def)
  have single: "\<forall>node. getOptionalConfig api cfg ''catalog.providers.capi'' = Inr (Some node) \<and>
           has api node ''hubClusterName'' = Inr True \<longrightarrow>
      (\<forall>e. readProviderConfig api ''default'' node = Inl e \<longrightarrow> readProviderConfigs api cfg = Inl e) \<and>
      (\<forall>pc. readProviderConfig api ''default'' node = Inr pc \<longrightarrow>
            readProviderConfigs api cfg = Inr [pc] \<and> id pc = ''default'')"
    by (auto simp: readProviderConfigs_def DEFAULT_PROVIDER_ID_def dest: readProviderConfig_id)
  have multi: "\<forall>node. getOptionalConfig api cfg ''catalog.providers.capi'' = Inr (Some node) \<and>
           has api node ''hubClusterName'' = Inr False \<longrightarrow>
      (\<forall>pcs. readProviderConfigs api cfg = Inr pcs \<longrightarrow>
            length pcs = length (keys api node) \<and> map id pcs = keys api node \<and>
            (\<forall>i < length (keys api node).
               readNamedProvider api node (keys api node ! i) = Inr (pcs ! i))) \<and>
      (\<forall>e. readProviderConfigs api cfg = Inl e \<longrightarrow>
            (\<exists>k \<in> set (keys api node). readNamedProvider api node k = Inl e))"
  proof (intro allI impI, elim conjE)
    fix node
    assume g: "getOptionalConfig api cfg ''catalog.providers.capi'' = Inr (Some node)"
      and h: "has api node ''hubClusterName'' = Inr False"
    have eq: "readProviderConfigs api cfg = mapThrowing (readNamedProvider api node) (keys api node)"
      using g h by (simp add: readProviderConfigs_def)
    show "(\<forall>pcs. readProviderConfigs api cfg = Inr pcs \<longrightarrow>
            length pcs = length (keys api node) \<and> map id pcs = keys api node \<and>
            (\<forall>i < length (keys api node).
               readNamedProvider api node (keys api node ! i) = Inr (pcs ! i))) \<and>
      (\<forall>e. readProviderConfigs api cfg = Inl e \<longrightarrow>
            (\<exists>k \<in> set (keys api node). readNamedProvider api node k = Inl e))"
      unfolding eq
      using mapThrowing_Inr[of "readNamedProvider api node" "keys api node"]
        mapThrowing_ids[of api node "keys api node"]
        mapThrowing_Inl[of "readNamedProvider api node" "keys api node"]
      by blast
  qed
  show ?thesis using absent single multi by blast
qed

theorem C3_readProviderConfigs_witness:
  "readProviderConfigs jsonReader (JObject []) = Inr [] \<and>
   readProviderConfigs jsonReader (capiConfig singleNode) =
     Inr [\<lparr> id = ''default'', hubClusterName = ''demo-cluster'', schedule = None,
            defaults = Some \<lparr> clusterOwner = Some ''group:team-lucky'', system = None,
                               lifecycle = None, tags = None \<rparr> \<rparr>] \<and>
   keys jsonReader multiNode = [''default'', ''cluster1''] \<and>
   (\<exists>pcs. readProviderConfigs jsonReader (capiConfig multiNode) = Inr pcs \<and>
          map id pcs = [''default'', ''cluster1''] \<and>
          map hubClusterName pcs = [''default'', ''eu-cluster''])"
proof -
  have a: "getOptionalConfig jsonReader (JObject []) ''catalog.providers.capi'' = Inr None"
    by code_simp
  have absent: "readProviderConfigs jsonReader (JObject []) = Inr []"
    using a C3_readProviderConfigs[of jsonReader "JObject []"] by blast
  have s: "getOptionalConfig jsonReader (capiConfig singleNode) ''catalog.providers.capi'' = Inr (Some singleNode) \<and>
           has jsonReader singleNode ''hubClusterName'' = Inr True"
    by code_simp
  have sp: "readProviderConfig jsonReader ''default'' singleNode =
     Inr \<lparr> id = ''default'', hubClusterName = ''demo-cluster'', schedule = None,
            defaults = Some \<lparr> clusterOwner = Some ''group:team-lucky'', system = None,
                               lifecycle = None, tags = None \<rparr> \<rparr>"
    by code_simp
  have single: "readProviderConfigs jsonReader (capiConfig singleNode) =
     Inr [\<lparr> id = ''default'', hubClusterName = ''demo-cluster'', schedule = None,
            defaults = Some \<lparr> clusterOwner = Some ''group:team-lucky'', system = None,
                               lifecycle = None, tags = None \<rparr> \<rparr>]"
    using s sp C3_readProviderConfigs[of jsonReader "capiConfig singleNode"] by blast
  have m: "getOptionalConfig jsonReader (capiConfig multiNode) ''catalog.providers.capi'' = Inr (Some multiNode) \<and>
           has jsonReader multiNode ''hubClusterName'' = Inr False"
    by code_simp
  have k: "keys jsonReader multiNode = [''default'', ''cluster1'']"
    by code_simp
  have r: "map_sum (\<lambda>e. e) (map hubClusterName) (readProviderConfigs jsonReader (capiConfig multiNode)) =
             Inr [''default'', ''eu-cluster'']"
    by code_simp
  then obtain pcs where pcs: "readProviderConfigs jsonReader (capiConfig multiNode) = Inr pcs"
    and hubs: "map hubClusterName pcs = [''default'', ''eu-cluster'']"
    by (cases "readProviderConfigs jsonReader (capiConfig multiNode)") auto
  have ids: "map id pcs = [''default'', ''cluster1'']"
    using m k pcs C3_readProviderConfigs[of jsonReader "capiConfig multiNode"] by metis
  show ?thesis using absent single k pcs ids hubs by simp
qed

end
